theory Spec2Isabelle
  imports Main
begin

section \<open>Values of the JavaScript runtime used by the route handlers\<close>

text \<open>
  The route file \<^verbatim>\<open>dev/nextjs-app-router/app/api/builder/handle/route.ts\<close> exports
  \<^verbatim>\<open>GET\<close> and \<^verbatim>\<open>POST\<close> and dispatches to \<^verbatim>\<open>handleDataNew\<close>, \<^verbatim>\<open>handleAssetNew\<close> and
  \<^verbatim>\<open>handleThemeNew\<close> through \<^verbatim>\<open>handleEditorNew\<close>.  A JavaScript string and a Buffer are
  both modelled as \<^typ>\<open>string\<close>, the list of their (UTF-8) bytes, so that \<^verbatim>\<open>data.length\<close>
  of a Buffer is \<^const>\<open>length\<close>.
\<close>

datatype error =
    TypeError string
  | SyntaxError string
  | ENOENT string
  | Failure string

datatype json =
    JNull
  | JBool bool
  | JNum int
  | JStr string
  | JArr "json list"
  | JObj "(string \<times> json) list"

subsection \<open>Number.prototype.toString for the integers that occur\<close>

definition digit_char :: "nat \<Rightarrow> char" where
  "digit_char d = ''0123456789abcdef'' ! (d mod 16)"

fun nat_toString :: "nat \<Rightarrow> string" where
  "nat_toString n =
     (if n < 10 then [digit_char n] else nat_toString (n div 10) @ [digit_char (n mod 10)])"

declare nat_toString.simps [simp del]

definition int_toString :: "int \<Rightarrow> string" where
  "int_toString i = (if i < 0 then CHR ''-'' # nat_toString (nat (- i)) else nat_toString (nat i))"

subsection \<open>String.prototype.startsWith and Array.prototype.join\<close>

definition startsWith :: "string \<Rightarrow> string \<Rightarrow> bool" where
  "startsWith s p = (take (length p) s = p)"

fun join_with :: "string \<Rightarrow> string list \<Rightarrow> string" where
  "join_with sep [] = []"
| "join_with sep [x] = x"
| "join_with sep (x # y # ys) = x @ sep @ join_with sep (y # ys)"

subsection \<open>JSON.stringify\<close>

text \<open>The escapes of \<^verbatim>\<open>JSON.stringify\<close> (QuoteJSONString) on the bytes of a string.\<close>

definition quote_char :: "char \<Rightarrow> string" where
  "quote_char c =
     (if c = CHR 0x22 then [CHR 0x5C, CHR 0x22]
      else if c = CHR 0x5C then [CHR 0x5C, CHR 0x5C]
      else if c = CHR 0x08 then [CHR 0x5C, CHR ''b'']
      else if c = CHR 0x0C then [CHR 0x5C, CHR ''f'']
      else if c = CHR 0x0A then [CHR 0x5C, CHR ''n'']
      else if c = CHR 0x0D then [CHR 0x5C, CHR ''r'']
      else if c = CHR 0x09 then [CHR 0x5C, CHR ''t'']
      else if (of_char c :: nat) < 32
        then [CHR 0x5C, CHR ''u'', CHR ''0'', CHR ''0'',
              digit_char (of_char c div 16), digit_char (of_char c mod 16)]
      else [c])"

definition quoteJSON :: "string \<Rightarrow> string" where
  "quoteJSON s = [CHR 0x22] @ concat (map quote_char s) @ [CHR 0x22]"

fun JSON_stringify :: "json \<Rightarrow> string" where
  "JSON_stringify JNull = ''null''"
| "JSON_stringify (JBool b) = (if b then ''true'' else ''false'')"
| "JSON_stringify (JNum n) = int_toString n"
| "JSON_stringify (JStr s) = quoteJSON s"
| "JSON_stringify (JArr xs) = ''['' @ join_with '','' (map JSON_stringify xs) @ '']''"
| "JSON_stringify (JObj kvs) =
     ''{'' @ join_with '','' (map (\<lambda>kv. quoteJSON (fst kv) @ '':'' @ JSON_stringify (snd kv)) kvs) @ ''}''"

text \<open>The values of a list of results in order, or the error in front.\<close>

fun collect :: "(error + 'a) list \<Rightarrow> error + 'a list" where
  "collect [] = Inr []"
| "collect (Inl e # rs) = Inl e"
| "collect (Inr v # rs) = (case collect rs of Inl e \<Rightarrow> Inl e | Inr vs \<Rightarrow> Inr (v # vs))"

text \<open>
  \<^verbatim>\<open>ToString\<close> of a parsed JSON value, which is what the \<^verbatim>\<open>Response\<close> constructor applies
  to a body that is neither a stream, a buffer nor a string.  An array becomes the
  comma-joined \<^verbatim>\<open>ToString\<close> of its elements (\<^verbatim>\<open>null\<close> elements as the empty string).  An
  object becomes \<^verbatim>\<open>[object Object]\<close> through \<^verbatim>\<open>Object.prototype.toString\<close>, unless it has
  an own key \<^verbatim>\<open>toString\<close>: a parsed value is never callable, \<^verbatim>\<open>valueOf\<close> does not give a
  primitive either, and the conversion throws a TypeError.
\<close>

fun js_toString :: "json \<Rightarrow> error + string" where
  "js_toString JNull = Inr ''null''"
| "js_toString (JBool b) = Inr (if b then ''true'' else ''false'')"
| "js_toString (JNum n) = Inr (int_toString n)"
| "js_toString (JStr s) = Inr s"
| "js_toString (JArr xs) =
     (case collect (map (\<lambda>x. if x = JNull then Inr [] else js_toString x) xs) of
        Inl e \<Rightarrow> Inl e
      | Inr ss \<Rightarrow> Inr (join_with '','' ss))"
| "js_toString (JObj kvs) =
     (if ''toString'' \<in> set (map fst kvs)
      then Inl (TypeError ''Cannot convert object to primitive value'')
      else Inr ''[object Object]'')"

text \<open>The bytes of a body given as a parsed JSON value; \<^verbatim>\<open>null\<close> is the empty body.\<close>

definition body_init :: "json \<Rightarrow> error + string" where
  "body_init j = (if j = JNull then Inr [] else js_toString j)"

section \<open>Node's \<^verbatim>\<open>path.join\<close> (POSIX)\<close>

text \<open>\<^verbatim>\<open>split_slash\<close>: the segments between the \<^verbatim>\<open>/\<close> characters of a path.\<close>

fun split_slash :: "string \<Rightarrow> string list" where
  "split_slash [] = [[]]"
| "split_slash (c # cs) =
     (if c = CHR ''/'' then [] # split_slash cs
      else (case split_slash cs of [] \<Rightarrow> [[c]] | s # ss \<Rightarrow> (c # s) # ss))"

text \<open>
  \<^verbatim>\<open>normalizeString(path, allowAboveRoot)\<close>: Node scans the characters and keeps the result
  \<^verbatim>\<open>res\<close>; segment by segment this is a stack (here with the last segment first).  An
  empty segment and \<^verbatim>\<open>.\<close> are dropped; \<^verbatim>\<open>..\<close> removes the last kept segment unless there
  is none or it is itself \<^verbatim>\<open>..\<close>, in which case \<^verbatim>\<open>..\<close> is kept only when
  \<^verbatim>\<open>allowAboveRoot\<close>.
\<close>

fun normalizeSegments :: "bool \<Rightarrow> string list \<Rightarrow> string list \<Rightarrow> string list" where
  "normalizeSegments allowAboveRoot res [] = rev res"
| "normalizeSegments allowAboveRoot res (s # ss) =
     (if s = [] \<or> s = ''.'' then normalizeSegments allowAboveRoot res ss
      else if s = ''..'' then
        (case res of
           r # rs \<Rightarrow>
             (if r = ''..''
              then normalizeSegments allowAboveRoot
                     (if allowAboveRoot then ''..'' # res else res) ss
              else normalizeSegments allowAboveRoot rs ss)
         | [] \<Rightarrow>
             normalizeSegments allowAboveRoot (if allowAboveRoot then [''..''] else []) ss)
      else normalizeSegments allowAboveRoot (s # res) ss)"

definition normalizeString :: "string \<Rightarrow> bool \<Rightarrow> string" where
  "normalizeString p allowAboveRoot =
     join_with ''/'' (normalizeSegments allowAboveRoot [] (split_slash p))"

definition normalize :: "string \<Rightarrow> string" where
  "normalize p =
     (if p = [] then ''.''
      else
        (let isAbsolute = (hd p = CHR ''/'');
             trailingSeparator = (last p = CHR ''/'');
             res = normalizeString p (\<not> isAbsolute)
         in if res = [] then
              (if isAbsolute then ''/'' else if trailingSeparator then ''./'' else ''.'')
            else (if isAbsolute then ''/'' else []) @ res
                 @ (if trailingSeparator then ''/'' else [])))"

text \<open>
  \<^verbatim>\<open>path.join(...args)\<close>: every argument is validated to be a string first (an
  \<^verbatim>\<open>undefined\<close> argument, here \<^const>\<open>None\<close>, throws a TypeError), the non-empty ones are
  joined with \<^verbatim>\<open>/\<close> and the result is normalised.
\<close>

fun validateStrings :: "string option list \<Rightarrow> error + string list" where
  "validateStrings [] = Inr []"
| "validateStrings (None # as) = Inl (TypeError ''The path argument must be of type string'')"
| "validateStrings (Some a # as) =
     (case validateStrings as of Inl e \<Rightarrow> Inl e | Inr xs \<Rightarrow> Inr (a # xs))"

definition join_validated :: "string list \<Rightarrow> string" where
  "join_validated xs =
     (let joined = join_with ''/'' (filter (\<lambda>a. a \<noteq> []) xs)
      in if joined = [] then ''.'' else normalize joined)"

definition path_join :: "string option list \<Rightarrow> error + string" where
  "path_join args =
     (case validateStrings args of
        Inl e \<Rightarrow> Inl e
      | Inr xs \<Rightarrow> Inr (join_validated xs))"

section \<open>Requests, responses and the collaborators of the route\<close>

text \<open>
  A \<^verbatim>\<open>NextRequest\<close> as the handlers read it: \<^verbatim>\<open>req.method\<close>, the entries of
  \<^verbatim>\<open>new URL(req.url).searchParams\<close> in order, the request headers (names in lower case, as
  \<^verbatim>\<open>Headers\<close> keeps them) and \<^verbatim>\<open>req.body\<close> (\<^verbatim>\<open>null\<close> is \<^const>\<open>None\<close>).
\<close>

record request =
  req_method :: string
  searchParams :: "(string \<times> string) list"
  req_headers :: "(string \<times> string) list"
  req_body :: "string option"

text \<open>A \<^verbatim>\<open>Response\<close>: its status, the headers the code sets, and the bytes of its body.\<close>

record response =
  status :: nat
  headers :: "(string \<times> string) list"
  body :: string

text \<open>
  What a handler does to the outside world, in order: the calls into
  \<^verbatim>\<open>destack/build/server\<close> and \<^verbatim>\<open>fs.promises\<close>, and the \<^verbatim>\<open>console.error\<close> of a catch block.
\<close>

datatype event =
    Call_loadData "string option" string
  | Call_updateData "string option" string "string option"
  | Call_uploadFiles request
  | Call_readFile string
  | Call_readdir string
  | Console_error string error

text \<open>
  The imports of the route file are parameters: \<^verbatim>\<open>getPackagePath\<close>, \<^verbatim>\<open>loadData\<close>,
  \<^verbatim>\<open>updateData\<close> and \<^verbatim>\<open>uploadFiles\<close> live in \<^verbatim>\<open>lib/server/api/handle.ts\<close>, the file
  system behind \<^verbatim>\<open>fs.promises\<close> and \<^verbatim>\<open>JSON.parse\<close> (behind \<^verbatim>\<open>Response.json()\<close>) in the
  runtime.  A rejected promise or a thrown exception is \<^const>\<open>Inl\<close>.
\<close>

record env =
  getPackagePath :: string
  fs_readFile :: "string \<Rightarrow> error + string"
  fs_readdir :: "string \<Rightarrow> error + string list"
  loadData :: "string option \<Rightarrow> string \<Rightarrow> error + json"
  updateData :: "string option \<Rightarrow> string \<Rightarrow> string option \<Rightarrow> error + unit"
  uploadFiles :: "request \<Rightarrow> error + json"
  JSON_parse :: "string \<Rightarrow> error + json"

text \<open>The events of a try block so far, and its exception or its value.\<close>

type_synonym 'a attempt = "event list \<times> (error + 'a)"

text \<open>
  \<^verbatim>\<open>getQueryParams\<close>: \<^verbatim>\<open>Object.fromEntries(url.searchParams.entries())\<close>; of two entries
  with one key the later one stays.  A missing property reads as \<^verbatim>\<open>undefined\<close>, here
  \<^const>\<open>None\<close>.
\<close>

definition getQueryParams :: "request \<Rightarrow> string \<Rightarrow> string option" where
  "getQueryParams req = map_of (rev (searchParams req))"

text \<open>\<^verbatim>\<open>req.headers.get(name)\<close>.\<close>

definition headers_get :: "request \<Rightarrow> string \<Rightarrow> string option" where
  "headers_get req name = map_of (req_headers req) name"

text \<open>\<^verbatim>\<open>v || d\<close> on a string that may be \<^verbatim>\<open>undefined\<close>: the empty string is falsy too.\<close>

definition or_default :: "string option \<Rightarrow> string \<Rightarrow> string" where
  "or_default v d = (case v of None \<Rightarrow> d | Some s \<Rightarrow> if s = [] then d else s)"

text \<open>
  \<^verbatim>\<open>NextResponse.json(data, { status })\<close>: the body is \<^verbatim>\<open>JSON.stringify(data)\<close> and the
  content type is set to \<^verbatim>\<open>application/json\<close>; the status is 200 when none is given.
\<close>

definition NextResponse_json :: "json \<Rightarrow> nat \<Rightarrow> response" where
  "NextResponse_json data st =
     \<lparr>status = st, headers = [(''content-type'', ''application/json'')],
      body = JSON_stringify data\<rparr>"

definition internal_server_error :: json where
  "internal_server_error = JObj [(''error'', JStr ''Internal Server Error'')]"

section \<open>The handlers\<close>

subsection \<open>handleDataNew\<close>

definition handleDataNew_try :: "env \<Rightarrow> request \<Rightarrow> response attempt" where
  "handleDataNew_try env req =
     (let queryParams = getQueryParams req in
      if req_method req = ''GET'' then
        (let ext = or_default (queryParams ''ext'') ''html'' in
         case loadData env (queryParams ''path'') ext of
           Inl e \<Rightarrow> ([Call_loadData (queryParams ''path'') ext], Inl e)
         | Inr data \<Rightarrow>
             ([Call_loadData (queryParams ''path'') ext], Inr (NextResponse_json data 200)))
      else if req_method req = ''POST'' then
        (let contentType = headers_get req ''content-type'';
             isMultiPart =
               (case contentType of None \<Rightarrow> False
                | Some ct \<Rightarrow> startsWith ct ''multipart/form-data'')
         in if \<not> isMultiPart then
              (let ext = or_default (queryParams ''ext'') ''html'' in
               case updateData env (queryParams ''path'') ext (req_body req) of
                 Inl e \<Rightarrow> ([Call_updateData (queryParams ''path'') ext (req_body req)], Inl e)
               | Inr u \<Rightarrow>
                   ([Call_updateData (queryParams ''path'') ext (req_body req)],
                    Inr (NextResponse_json (JObj []) 200)))
            else
              (case uploadFiles env req of
                 Inl e \<Rightarrow> ([Call_uploadFiles req], Inl e)
               | Inr urls \<Rightarrow> ([Call_uploadFiles req], Inr (NextResponse_json urls 200))))
      else ([], Inr (NextResponse_json (JObj [(''error'', JStr ''Method Not Allowed'')]) 405)))"

text \<open>The catch block of a handler: log the error, answer 500 with the generic object.\<close>

definition catch_500 :: "string \<Rightarrow> response attempt \<Rightarrow> event list \<times> response" where
  "catch_500 msg a =
     (case snd a of
        Inr r \<Rightarrow> (fst a, r)
      | Inl e \<Rightarrow> (fst a @ [Console_error msg e], NextResponse_json internal_server_error 500))"

definition handleDataNew :: "env \<Rightarrow> request \<Rightarrow> event list \<times> response" where
  "handleDataNew env req =
     catch_500 ''Error handling data in handleDataNew:'' (handleDataNew_try env req)"

subsection \<open>handleAssetNew\<close>

definition handleAssetNew_try :: "env \<Rightarrow> request \<Rightarrow> response attempt" where
  "handleAssetNew_try env req =
     (if req_method req = ''GET'' then
        (let queryParams = getQueryParams req in
         case path_join [Some (getPackagePath env), queryParams ''path''] of
           Inl e \<Rightarrow> ([], Inl e)
         | Inr assetPath \<Rightarrow>
             (case fs_readFile env assetPath of
                Inl e \<Rightarrow> ([Call_readFile assetPath], Inl e)
              | Inr data \<Rightarrow>
                  ([Call_readFile assetPath],
                   Inr \<lparr>status = 200,
                        headers = [(''Content-Type'', ''image/png''),
                                   (''Content-Length'', nat_toString (length data))],
                        body = data\<rparr>)))
      else ([], Inr (NextResponse_json (JObj [(''error'', JStr ''Method Not Allowed'')]) 405)))"

definition handleAssetNew :: "env \<Rightarrow> request \<Rightarrow> event list \<times> response" where
  "handleAssetNew env req =
     catch_500 ''Error handling asset in handleAssetNew:'' (handleAssetNew_try env req)"

subsection \<open>handleThemeNew\<close>

text \<open>The filter on the directory listing: not \<^verbatim>\<open>index.ts\<close>, and no leading dot.\<close>

definition isComponent :: "string \<Rightarrow> bool" where
  "isComponent c = (c \<noteq> ''index.ts'' \<and> \<not> startsWith c ''.'')"

text \<open>The async callback mapped over the component names.\<close>

definition readComponent :: "env \<Rightarrow> string \<Rightarrow> string \<Rightarrow> json attempt" where
  "readComponent env folderPath c =
     (case path_join [Some folderPath, Some c, Some ''index.html''] of
        Inl e \<Rightarrow> ([], Inl e)
      | Inr assetPath \<Rightarrow>
          (case fs_readFile env assetPath of
             Inl e \<Rightarrow> ([Call_readFile assetPath], Inl e)
           | Inr source \<Rightarrow>
               ([Call_readFile assetPath],
                Inr (JObj [(''source'', JStr source), (''folder'', JStr c)]))))"

text \<open>
  \<^verbatim>\<open>Promise.all\<close>: the values in order when every promise fulfils, a rejection otherwise.
  Every callback has been started by then, so the events of all of them are kept.  Of
  several rejections the one in front is taken here; the handler only logs it.
\<close>

fun Promise_all :: "(error + 'a) list \<Rightarrow> error + 'a list" where
  "Promise_all [] = Inr []"
| "Promise_all (Inl e # ps) = Inl e"
| "Promise_all (Inr v # ps) = (case Promise_all ps of Inl e \<Rightarrow> Inl e | Inr vs \<Rightarrow> Inr (v # vs))"

definition handleThemeNew_try :: "env \<Rightarrow> request \<Rightarrow> response attempt" where
  "handleThemeNew_try env req =
     (if req_method req = ''GET'' then
        (let queryParams = getQueryParams req;
             themeName = queryParams ''name''
         in case path_join [Some (getPackagePath env), Some ''themes'', themeName] of
              Inl e \<Rightarrow> ([], Inl e)
            | Inr folderPath \<Rightarrow>
                (case fs_readdir env folderPath of
                   Inl e \<Rightarrow> ([Call_readdir folderPath], Inl e)
                 | Inr f \<Rightarrow>
                     (let componentNames = filter isComponent f;
                          componentsP = map (readComponent env folderPath) componentNames;
                          evs = Call_readdir folderPath # concat (map fst componentsP)
                      in case Promise_all (map snd componentsP) of
                           Inl e \<Rightarrow> (evs, Inl e)
                         | Inr components \<Rightarrow>
                             (evs, Inr (NextResponse_json (JArr components) 200)))))
      else ([], Inr (NextResponse_json (JObj [(''error'', JStr ''Not allowed'')]) 405)))"

definition handleThemeNew :: "env \<Rightarrow> request \<Rightarrow> event list \<times> response" where
  "handleThemeNew env req =
     catch_500 ''Error handling theme in handleThemeNew:'' (handleThemeNew_try env req)"

subsection \<open>handleEditorNew\<close>

text \<open>
  The dispatch on \<^verbatim>\<open>query.type\<close>.  The three handlers catch everything themselves and
  \<^verbatim>\<open>NextResponse.json\<close> of a literal does not throw, so the catch block of
  \<^verbatim>\<open>handleEditorNew\<close> has nothing to catch.
\<close>

definition handleEditorNew ::
  "env \<Rightarrow> request \<Rightarrow> (string \<Rightarrow> string option) \<Rightarrow> event list \<times> response" where
  "handleEditorNew env req query =
     (if query ''type'' = Some ''data'' then handleDataNew env req
      else if query ''type'' = Some ''asset'' then handleAssetNew env req
      else if query ''type'' = Some ''theme'' then handleThemeNew env req
      else ([], NextResponse_json (JObj [(''error'', JStr ''Invalid Type'')]) 400))"

subsection \<open>The exported GET and POST\<close>

text \<open>
  \<^verbatim>\<open>result.json()\<close> parses the body of the inner response; \<^verbatim>\<open>result.arrayBuffer()\<close> is the
  body itself.  In the default branch the parsed value is handed to the \<^verbatim>\<open>NextResponse\<close>
  constructor as a body (\<^const>\<open>body_init\<close>), which throws for some values.
\<close>

definition GET_try :: "env \<Rightarrow> (string \<Rightarrow> string option) \<Rightarrow> response \<Rightarrow> error + response" where
  "GET_try env queryParams result =
     (if queryParams ''type'' = Some ''theme'' then
        (case JSON_parse env (body result) of
           Inl e \<Rightarrow> Inl e
         | Inr responseBody \<Rightarrow> Inr (NextResponse_json responseBody 200))
      else if queryParams ''type'' = Some ''asset'' then
        Inr \<lparr>status = 200, headers = [(''Content-Type'', ''image/png'')], body = body result\<rparr>
      else
        (case JSON_parse env (body result) of
           Inl e \<Rightarrow> Inl e
         | Inr response \<Rightarrow>
             (case body_init response of
                Inl e \<Rightarrow> Inl e
              | Inr bytes \<Rightarrow>
                  Inr \<lparr>status = 200, headers = [(''Content-Type'', ''application/json'')],
                       body = bytes\<rparr>)))"

text \<open>The catch block of \<^verbatim>\<open>GET\<close> and \<^verbatim>\<open>POST\<close>: \<^verbatim>\<open>new Response(JSON.stringify(...), ...)\<close>.\<close>

definition route_catch :: "string \<Rightarrow> event list \<Rightarrow> error + response \<Rightarrow> event list \<times> response" where
  "route_catch msg evs a =
     (case a of
        Inr r \<Rightarrow> (evs, r)
      | Inl e \<Rightarrow>
          (evs @ [Console_error msg e],
           \<lparr>status = 500, headers = [(''Content-Type'', ''application/json'')],
            body = JSON_stringify internal_server_error\<rparr>))"

definition GET :: "env \<Rightarrow> request \<Rightarrow> event list \<times> response" where
  "GET env req =
     (let queryParams = getQueryParams req;
          inner = handleEditorNew env req queryParams
      in route_catch ''Error handling GET request:'' (fst inner)
           (GET_try env queryParams (snd inner)))"

text \<open>
  In \<^verbatim>\<open>POST\<close> the inner \<^verbatim>\<open>NextResponse\<close> object itself is given to \<^verbatim>\<open>NextResponse.json\<close>.
  A response has no enumerable own property with a string key, so \<^verbatim>\<open>JSON.stringify\<close>
  of it is the empty object.
\<close>

definition Response_toJSON :: "response \<Rightarrow> json" where
  "Response_toJSON r = JObj []"

definition POST_try :: "env \<Rightarrow> (string \<Rightarrow> string option) \<Rightarrow> response \<Rightarrow> error + response" where
  "POST_try env queryParams result =
     (if queryParams ''type'' = Some ''theme'' then
        (case JSON_parse env (body result) of
           Inl e \<Rightarrow> Inl e
         | Inr responseBody \<Rightarrow> Inr (NextResponse_json responseBody 200))
      else Inr (NextResponse_json (Response_toJSON result) 200))"

definition POST :: "env \<Rightarrow> request \<Rightarrow> event list \<times> response" where
  "POST env req =
     (let queryParams = getQueryParams req;
          inner = handleEditorNew env req queryParams
      in route_catch ''Error handling POST request:'' (fst inner)
           (POST_try env queryParams (snd inner)))"

section \<open>Reading a log, and a concrete installation\<close>

text \<open>The calls to collaborators in a log, without the \<^verbatim>\<open>console.error\<close> lines.\<close>

fun is_call :: "event \<Rightarrow> bool" where
  "is_call (Console_error msg e) = False"
| "is_call ev = True"

definition calls :: "event list \<Rightarrow> event list" where
  "calls evs = filter is_call evs"

text \<open>The number a decimal numeral denotes, to read a \<^verbatim>\<open>Content-Length\<close> back.\<close>

definition decimal_value :: "string \<Rightarrow> nat" where
  "decimal_value s = foldl (\<lambda>a c. 10 * a + (of_char c - of_char (CHR ''0''))) 0 s"

text \<open>
  A package installed at \<^verbatim>\<open>/app/node_modules/destack\<close> with one asset, the theme
  \<^verbatim>\<open>default\<close> of the scenario, and a file next to the package directory.
\<close>

definition ex_env :: env where
  "ex_env =
     \<lparr>getPackagePath = ''/app/node_modules/destack'',
      fs_readFile = (\<lambda>p.
        if p = ''/app/node_modules/secret.png'' then Inr ''TOP SECRET''
        else if p = ''/app/node_modules/destack/assets/logo.png'' then Inr ''PNGDATA12345''
        else if p = ''/app/node_modules/destack/themes/default/banner1/index.html''
          then Inr ''<section>banner</section>''
        else if p = ''/app/node_modules/destack/themes/default/footer1/index.html''
          then Inr ''<footer>footer</footer>''
        else Inl (ENOENT p)),
      fs_readdir = (\<lambda>p.
        if p = ''/app/node_modules/destack/themes/default''
        then Inr [''banner1'', ''footer1'', ''index.ts'', ''.hidden'']
        else Inl (ENOENT p)),
      loadData = (\<lambda>p ext. Inr (JObj [(''ext'', JStr ext)])),
      updateData = (\<lambda>p ext b. Inr ()),
      uploadFiles = (\<lambda>req. Inr (JArr [JStr ''/uploaded/a.png''])),
      JSON_parse = (\<lambda>s. Inl (SyntaxError s))\<rparr>"

definition ex_request :: "string \<Rightarrow> (string \<times> string) list \<Rightarrow> request" where
  "ex_request m q = \<lparr>req_method = m, searchParams = q, req_headers = [], req_body = None\<rparr>"

definition ex_upload_request :: request where
  "ex_upload_request =
     \<lparr>req_method = ''POST'', searchParams = [(''type'', ''data'')],
      req_headers = [(''content-type'', ''multipart/form-data; boundary=x'')],
      req_body = Some ''--x--''\<rparr>"

definition ex_update_request :: request where
  "ex_update_request =
     \<lparr>req_method = ''POST'',
      searchParams = [(''type'', ''data''), (''path'', ''home''), (''ext'', ''json'')],
      req_headers = [(''content-type'', ''application/json'')],
      req_body = Some ''{}''\<rparr>"

section \<open>Helper facts about the runtime functions\<close>

lemma catch_500_Inr: "catch_500 msg (evs, Inr r) = (evs, r)"
  by (simp add: catch_500_def)

lemma catch_500_Inl:
  "catch_500 msg (evs, Inl e) = (evs @ [Console_error msg e], NextResponse_json internal_server_error 500)"
  by (simp add: catch_500_def)

lemma catch_500_failure:
  "snd a = Inl e \<Longrightarrow> snd (catch_500 msg a) = NextResponse_json internal_server_error 500"
  by (simp add: catch_500_def)

lemma catch_500_status:
  assumes "\<And>r. snd a = Inr r \<Longrightarrow> status r = 200 \<or> status r = 405"
  shows "status (snd (catch_500 msg a)) = 200 \<or> status (snd (catch_500 msg a)) = 405
         \<or> status (snd (catch_500 msg a)) = 500"
  using assms by (cases "snd a") (auto simp add: catch_500_def NextResponse_json_def)

lemma status_NextResponse_json: "status (NextResponse_json j st) = st"
  by (simp add: NextResponse_json_def)

lemma body_NextResponse_json: "body (NextResponse_json j st) = JSON_stringify j"
  by (simp add: NextResponse_json_def)

lemma calls_Nil: "calls [] = []"
  by (simp add: calls_def)

lemma calls_Cons: "calls (ev # evs) = (if is_call ev then ev # calls evs else calls evs)"
  by (simp add: calls_def)

lemma calls_catch_500: "calls (fst (catch_500 msg a)) = calls (fst a)"
  by (cases a) (simp add: catch_500_def calls_def split: sum.splits)

text \<open>
  \<^const>\<open>nat_toString\<close> writes the decimal numeral of its argument: reading it back gives the number.
\<close>

lemma digit_value: "d < 10 \<Longrightarrow> of_char (digit_char d) - 48 = (d::nat)"
proof -
  assume "d < 10"
  then have "d \<in> {0,1,2,3,4,5,6,7,8,9}" by auto
  then show ?thesis by (auto simp add: digit_char_def)
qed

lemma decimal_value_snoc:
  "decimal_value (s @ [c]) = 10 * decimal_value s + (of_char c - of_char (CHR ''0''))"
  by (simp add: decimal_value_def)

lemma decimal_value_nat_toString: "decimal_value (nat_toString n) = n"
proof (induction n rule: nat_toString.induct)
  case (1 n)
  show ?case
  proof (cases "n < 10")
    case True
    then show ?thesis
      by (subst nat_toString.simps) (simp add: decimal_value_def digit_value)
  next
    case False
    then have "decimal_value (nat_toString (n div 10)) = n div 10"
      using 1 by simp
    with False show ?thesis
      by (subst nat_toString.simps) (simp add: decimal_value_snoc digit_value)
  qed
qed

lemma nat_toString_10: "nat_toString 10 = ''10''"
  by (simp add: nat_toString.simps digit_char_def)

lemma nat_toString_12: "nat_toString 12 = ''12''"
  by (simp add: nat_toString.simps digit_char_def)

lemma length_secret: "nat_toString (length ''TOP SECRET'') = ''10''"
proof -
  have "length ''TOP SECRET'' = 10" by simp
  then show ?thesis by (simp only: nat_toString_10)
qed

lemma length_logo: "nat_toString (length ''PNGDATA12345'') = ''12''"
proof -
  have "length ''PNGDATA12345'' = 12" by simp
  then show ?thesis by (simp only: nat_toString_12)
qed

text \<open>
  \<^verbatim>\<open>path.join\<close> of strings never throws; the paths of the example installation.
\<close>

lemma validateStrings_Some: "validateStrings (map Some xs) = Inr xs"
  by (induction xs) simp_all

lemma path_join_Some3: "path_join [Some a, Some b, Some c] = Inr (join_validated [a, b, c])"
  using validateStrings_Some [of "[a, b, c]"] by (simp add: path_join_def)

lemma ex_join_secret:
  "path_join [Some (getPackagePath ex_env), Some ''../secret.png''] = Inr ''/app/node_modules/secret.png''"
  by (simp add: ex_env_def path_join_def join_validated_def normalize_def normalizeString_def)

lemma ex_join_logo:
  "path_join [Some (getPackagePath ex_env), Some ''assets/logo.png'']
     = Inr ''/app/node_modules/destack/assets/logo.png''"
  by (simp add: ex_env_def path_join_def join_validated_def normalize_def normalizeString_def)

lemma ex_join_missing:
  "path_join [Some (getPackagePath ex_env), Some ''missing.png'']
     = Inr ''/app/node_modules/destack/missing.png''"
  by (simp add: ex_env_def path_join_def join_validated_def normalize_def normalizeString_def)

lemma ex_join_theme:
  "path_join [Some (getPackagePath ex_env), Some ''themes'', Some n]
     = Inr (join_validated [''/app/node_modules/destack'', ''themes'', n])"
  by (simp add: ex_env_def path_join_Some3)

lemma ex_join_theme_nope:
  "join_validated [''/app/node_modules/destack'', ''themes'', ''nope'']
     = ''/app/node_modules/destack/themes/nope''"
  by (simp add: join_validated_def normalize_def normalizeString_def)

lemma ex_join_theme_default:
  "join_validated [''/app/node_modules/destack'', ''themes'', ''default'']
     = ''/app/node_modules/destack/themes/default''"
  by (simp add: join_validated_def normalize_def normalizeString_def)

lemma ex_join_component:
  "join_validated [''/app/node_modules/destack/themes/default'', ''banner1'', ''index.html'']
     = ''/app/node_modules/destack/themes/default/banner1/index.html''"
  "join_validated [''/app/node_modules/destack/themes/default'', ''footer1'', ''index.html'']
     = ''/app/node_modules/destack/themes/default/footer1/index.html''"
  by (simp_all add: join_validated_def normalize_def normalizeString_def)

lemma ex_request_fields:
  "req_method (ex_request m q) = m"
  "getQueryParams (ex_request m q) = map_of (rev q)"
  "headers_get (ex_request m q) n = None"
  "req_body (ex_request m q) = None"
  by (simp_all add: ex_request_def getQueryParams_def headers_get_def)

section \<open>What each handler returns\<close>

lemma handleDataNew_try_load:
  assumes "req_method req = ''GET''"
  shows "handleDataNew_try env req =
     ([Call_loadData (getQueryParams req ''path'') (or_default (getQueryParams req ''ext'') ''html'')],
      (case loadData env (getQueryParams req ''path'') (or_default (getQueryParams req ''ext'') ''html'')
       of Inl e \<Rightarrow> Inl e | Inr data \<Rightarrow> Inr (NextResponse_json data 200)))"
  using assms by (simp add: handleDataNew_try_def Let_def split: sum.splits)

lemma handleDataNew_try_upload:
  assumes "req_method req = ''POST''" and "headers_get req ''content-type'' = Some ct"
    and "startsWith ct ''multipart/form-data''"
  shows "handleDataNew_try env req =
     ([Call_uploadFiles req],
      (case uploadFiles env req of Inl e \<Rightarrow> Inl e | Inr urls \<Rightarrow> Inr (NextResponse_json urls 200)))"
  using assms by (simp add: handleDataNew_try_def Let_def split: sum.splits)

lemma handleDataNew_try_update:
  assumes "req_method req = ''POST''"
    and "headers_get req ''content-type'' = None
         \<or> (\<exists>ct. headers_get req ''content-type'' = Some ct \<and> \<not> startsWith ct ''multipart/form-data'')"
  shows "handleDataNew_try env req =
     ([Call_updateData (getQueryParams req ''path'') (or_default (getQueryParams req ''ext'') ''html'') (req_body req)],
      (case updateData env (getQueryParams req ''path'') (or_default (getQueryParams req ''ext'') ''html'') (req_body req)
       of Inl e \<Rightarrow> Inl e | Inr u \<Rightarrow> Inr (NextResponse_json (JObj []) 200)))"
  using assms by (auto simp add: handleDataNew_try_def Let_def split: sum.splits)

lemma handleAssetNew_try_GET:
  assumes "req_method req = ''GET''"
    and "path_join [Some (getPackagePath env), getQueryParams req ''path''] = Inr assetPath"
  shows "handleAssetNew_try env req =
     ([Call_readFile assetPath],
      (case fs_readFile env assetPath of
         Inl e \<Rightarrow> Inl e
       | Inr data \<Rightarrow>
           Inr \<lparr>status = 200,
                headers = [(''Content-Type'', ''image/png''),
                           (''Content-Length'', nat_toString (length data))],
                body = data\<rparr>))"
  using assms by (simp add: handleAssetNew_try_def Let_def split: sum.splits)

lemma handleAssetNew_read_ok:
  assumes "req_method req = ''GET''"
    and "path_join [Some (getPackagePath env), getQueryParams req ''path''] = Inr assetPath"
    and "fs_readFile env assetPath = Inr data"
  shows "handleAssetNew env req =
     ([Call_readFile assetPath],
      \<lparr>status = 200,
       headers = [(''Content-Type'', ''image/png''),
                  (''Content-Length'', nat_toString (length data))],
       body = data\<rparr>)"
  using assms by (simp add: handleAssetNew_def handleAssetNew_try_GET catch_500_Inr)

lemma handleAssetNew_read_failed:
  assumes "req_method req = ''GET''"
    and "path_join [Some (getPackagePath env), getQueryParams req ''path''] = Inr assetPath"
    and "fs_readFile env assetPath = Inl e"
  shows "handleAssetNew env req =
     ([Call_readFile assetPath, Console_error ''Error handling asset in handleAssetNew:'' e],
      NextResponse_json internal_server_error 500)"
  using assms by (simp add: handleAssetNew_def handleAssetNew_try_GET catch_500_Inl)

lemma GET_asset:
  assumes "getQueryParams req ''type'' = Some ''asset''"
  shows "GET env req =
     (fst (handleAssetNew env req),
      \<lparr>status = 200, headers = [(''Content-Type'', ''image/png'')],
       body = body (snd (handleAssetNew env req))\<rparr>)"
  using assms by (simp add: GET_def Let_def handleEditorNew_def GET_try_def route_catch_def)

lemma readComponent_ok:
  assumes "fs_readFile env (join_validated [folderPath, c, ''index.html'']) = Inr source"
  shows "readComponent env folderPath c =
     ([Call_readFile (join_validated [folderPath, c, ''index.html''])],
      Inr (JObj [(''source'', JStr source), (''folder'', JStr c)]))"
  using assms by (simp add: readComponent_def path_join_Some3)

lemma Promise_all_fulfilled:
  assumes "\<And>c. c \<in> set cs \<Longrightarrow> snd (f c) = Inr (g c)"
  shows "Promise_all (map snd (map f cs)) = Inr (map g cs)"
  using assms by (induction cs) simp_all

lemma concat_singleton_events:
  assumes "\<And>c. c \<in> set cs \<Longrightarrow> fst (f c) = [h c]"
  shows "concat (map fst (map f cs)) = map h cs"
  using assms by (induction cs) simp_all

lemma handleThemeNew_try_GET:
  assumes "req_method req = ''GET''"
    and "path_join [Some (getPackagePath env), Some ''themes'', getQueryParams req ''name'']
           = Inr folderPath"
  shows "handleThemeNew_try env req =
     (case fs_readdir env folderPath of
        Inl e \<Rightarrow> ([Call_readdir folderPath], Inl e)
      | Inr f \<Rightarrow>
          (Call_readdir folderPath
             # concat (map fst (map (readComponent env folderPath) (filter isComponent f))),
           (case Promise_all (map snd (map (readComponent env folderPath) (filter isComponent f))) of
              Inl e \<Rightarrow> Inl e
            | Inr components \<Rightarrow> Inr (NextResponse_json (JArr components) 200))))"
  using assms by (simp add: handleThemeNew_try_def Let_def split: sum.splits)

lemma handleThemeNew_listing:
  assumes "req_method req = ''GET''"
    and "path_join [Some (getPackagePath env), Some ''themes'', getQueryParams req ''name'']
           = Inr folderPath"
    and "fs_readdir env folderPath = Inr f"
    and "\<And>c. c \<in> set f \<Longrightarrow> isComponent c \<Longrightarrow>
           fs_readFile env (join_validated [folderPath, c, ''index.html'']) = Inr (src c)"
  shows "handleThemeNew env req =
     (Call_readdir folderPath
        # map (\<lambda>c. Call_readFile (join_validated [folderPath, c, ''index.html'']))
            (filter isComponent f),
      NextResponse_json
        (JArr (map (\<lambda>c. JObj [(''source'', JStr (src c)), (''folder'', JStr c)])
                 (filter isComponent f))) 200)"
proof -
  have rc: "readComponent env folderPath c =
     ([Call_readFile (join_validated [folderPath, c, ''index.html''])],
      Inr (JObj [(''source'', JStr (src c)), (''folder'', JStr c)]))"
    if "c \<in> set (filter isComponent f)" for c
    using that assms(4) by (simp add: readComponent_ok)
  have evs: "concat (map fst (map (readComponent env folderPath) (filter isComponent f)))
      = map (\<lambda>c. Call_readFile (join_validated [folderPath, c, ''index.html'']))
          (filter isComponent f)"
    by (rule concat_singleton_events) (simp add: rc)
  have pa: "Promise_all (map snd (map (readComponent env folderPath) (filter isComponent f)))
      = Inr (map (\<lambda>c. JObj [(''source'', JStr (src c)), (''folder'', JStr c)])
               (filter isComponent f))"
    by (rule Promise_all_fulfilled) (simp add: rc)
  have "handleThemeNew_try env req =
     (Call_readdir folderPath
        # map (\<lambda>c. Call_readFile (join_validated [folderPath, c, ''index.html'']))
            (filter isComponent f),
      Inr (NextResponse_json
        (JArr (map (\<lambda>c. JObj [(''source'', JStr (src c)), (''folder'', JStr c)])
                 (filter isComponent f))) 200))"
    by (simp only: handleThemeNew_try_GET [OF assms(1,2)] assms(3) sum.case evs pa)
  then show ?thesis
    by (simp add: handleThemeNew_def catch_500_Inr)
qed

lemma distinct_pair:
  assumes "distinct xs" and "set xs = {a, b}" and "a \<noteq> b"
  shows "xs = [a, b] \<or> xs = [b, a]"
proof -
  have "length xs = 2"
    using assms distinct_card [of xs] by simp
  then obtain x y where xy: "xs = [x, y]"
    by (cases xs; cases "tl xs"; cases "tl (tl xs)") auto
  with assms show ?thesis
    by (auto simp add: doubleton_eq_iff)
qed

lemma isComponent_scenario:
  "isComponent ''banner1''" "isComponent ''footer1''"
  "\<not> isComponent ''index.ts''" "\<not> isComponent ''.hidden''"
  by (simp_all add: isComponent_def startsWith_def)

lemma filter_scenario:
  assumes "distinct f"
    and "set f = {''banner1'', ''footer1'', ''index.ts'', ''.hidden''}"
  shows "filter isComponent f = [''banner1'', ''footer1'']
       \<or> filter isComponent f = [''footer1'', ''banner1'']"
proof (rule distinct_pair)
  show "distinct (filter isComponent f)"
    using assms(1) by simp
  show "set (filter isComponent f) = {''banner1'', ''footer1''}"
    using assms(2) isComponent_scenario by auto
  show "''banner1'' \<noteq> ''footer1''"
    by simp
qed

text \<open>
  At the route, every status is 200 or 500: the statuses of the inner response are not
  passed on by \<^const>\<open>GET\<close> and \<^const>\<open>POST\<close>.
\<close>

lemma GET_try_status:
  "GET_try env q result = Inr r \<Longrightarrow> status r = 200"
  by (auto simp add: GET_try_def NextResponse_json_def split: if_splits sum.splits)

lemma POST_try_status:
  "POST_try env q result = Inr r \<Longrightarrow> status r = 200"
  by (auto simp add: POST_try_def NextResponse_json_def split: if_splits sum.splits)

lemma route_catch_status:
  assumes "\<And>r. a = Inr r \<Longrightarrow> status r = 200"
  shows "status (snd (route_catch msg evs a)) = 200 \<or> status (snd (route_catch msg evs a)) = 500"
  using assms by (cases a) (simp_all add: route_catch_def)

lemma GET_status_200_or_500:
  "status (snd (GET env req)) = 200 \<or> status (snd (GET env req)) = 500"
  unfolding GET_def Let_def by (rule route_catch_status) (rule GET_try_status)

lemma POST_status_200_or_500:
  "status (snd (POST env req)) = 200 \<or> status (snd (POST env req)) = 500"
  unfolding POST_def Let_def by (rule route_catch_status) (rule POST_try_status)

section \<open>Asset requests\<close>

text \<open>
  C1, counterexample.  The package root is \<^verbatim>\<open>/app/node_modules/destack\<close>; the path
  \<^verbatim>\<open>../secret.png\<close> joins to \<^verbatim>\<open>/app/node_modules/secret.png\<close>, which is not under the root,
  and \<^const>\<open>handleAssetNew\<close> answers 200 with the bytes of that file instead of failing.
\<close>

theorem C1_traversal_served_counterexample:
  "path_join [Some (getPackagePath ex_env), Some ''../secret.png''] = Inr ''/app/node_modules/secret.png''
   \<and> \<not> startsWith ''/app/node_modules/secret.png'' (getPackagePath ex_env @ ''/'')
   \<and> handleAssetNew ex_env (ex_request ''GET'' [(''type'', ''asset''), (''path'', ''../secret.png'')])
       = ([Call_readFile ''/app/node_modules/secret.png''],
          \<lparr>status = 200,
           headers = [(''Content-Type'', ''image/png''), (''Content-Length'', ''10'')],
           body = ''TOP SECRET''\<rparr>)"
proof -
  have outside: "\<not> startsWith ''/app/node_modules/secret.png'' (getPackagePath ex_env @ ''/'')"
    by (simp add: startsWith_def ex_env_def)
  have r: "fs_readFile ex_env ''/app/node_modules/secret.png'' = Inr ''TOP SECRET''"
    by (simp add: ex_env_def)
  have "handleAssetNew ex_env (ex_request ''GET'' [(''type'', ''asset''), (''path'', ''../secret.png'')])
       = ([Call_readFile ''/app/node_modules/secret.png''],
          \<lparr>status = 200,
           headers = [(''Content-Type'', ''image/png''),
                      (''Content-Length'', nat_toString (length ''TOP SECRET''))],
           body = ''TOP SECRET''\<rparr>)"
    by (rule handleAssetNew_read_ok) (simp_all add: ex_request_fields ex_join_secret r)
  then show ?thesis
    unfolding length_secret using outside ex_join_secret by simp
qed

text \<open>
  C1, as amended.  For a GET asset request whose \<^verbatim>\<open>path\<close> parameter is present,
  \<^const>\<open>handleAssetNew\<close> reads the file at \<^verbatim>\<open>path.join(getPackagePath(), path)\<close> whether or
  not that path lies under the package root: when the read succeeds the response has status
  200 and the bytes of the file as its body, and when the read fails the error is logged and
  the response is the generic 500.  No containment check is made.
\<close>

theorem C1_asset_served_from_joined_path:
  assumes "req_method req = ''GET''"
    and "path_join [Some (getPackagePath env), getQueryParams req ''path''] = Inr assetPath"
  shows "(\<forall>data. fs_readFile env assetPath = Inr data \<longrightarrow>
            calls (fst (handleAssetNew env req)) = [Call_readFile assetPath]
            \<and> status (snd (handleAssetNew env req)) = 200
            \<and> body (snd (handleAssetNew env req)) = data)
       \<and> (\<forall>e. fs_readFile env assetPath = Inl e \<longrightarrow>
            handleAssetNew env req =
              ([Call_readFile assetPath,
                Console_error ''Error handling asset in handleAssetNew:'' e],
               NextResponse_json internal_server_error 500))"
  using assms
  by (simp add: handleAssetNew_read_ok handleAssetNew_read_failed calls_Cons calls_Nil)

theorem C1_asset_served_from_joined_path_witness:
  "calls (fst (handleAssetNew ex_env
      (ex_request ''GET'' [(''type'', ''asset''), (''path'', ''../secret.png'')])))
     = [Call_readFile ''/app/node_modules/secret.png'']
   \<and> body (snd (handleAssetNew ex_env
      (ex_request ''GET'' [(''type'', ''asset''), (''path'', ''../secret.png'')]))) = ''TOP SECRET''
   \<and> status (snd (handleAssetNew ex_env
      (ex_request ''GET'' [(''type'', ''asset''), (''path'', ''../missing.png'')]))) = 500"
proof -
  have p1: "path_join [Some (getPackagePath ex_env),
              getQueryParams (ex_request ''GET'' [(''type'', ''asset''), (''path'', ''../secret.png'')]) ''path'']
            = Inr ''/app/node_modules/secret.png''"
    by (simp add: ex_env_def ex_request_def path_join_def join_validated_def normalize_def
        normalizeString_def getQueryParams_def)
  have p2: "path_join [Some (getPackagePath ex_env),
              getQueryParams (ex_request ''GET'' [(''type'', ''asset''), (''path'', ''../missing.png'')]) ''path'']
            = Inr ''/app/node_modules/missing.png''"
    by (simp add: ex_env_def ex_request_def path_join_def join_validated_def normalize_def
        normalizeString_def getQueryParams_def)
  have m1: "req_method (ex_request ''GET'' [(''type'', ''asset''), (''path'', ''../secret.png'')]) = ''GET''"
    and m2: "req_method (ex_request ''GET'' [(''type'', ''asset''), (''path'', ''../missing.png'')]) = ''GET''"
    by (simp_all add: ex_request_def)
  have r1: "fs_readFile ex_env ''/app/node_modules/secret.png'' = Inr ''TOP SECRET''"
    and r2: "fs_readFile ex_env ''/app/node_modules/missing.png'' = Inl (ENOENT ''/app/node_modules/missing.png'')"
    by (simp_all add: ex_env_def)
  show ?thesis
    using C1_asset_served_from_joined_path [OF m1 p1] C1_asset_served_from_joined_path [OF m2 p2] r1 r2
    by (simp add: status_NextResponse_json)
qed

text \<open>
  On \<^const>\<open>handleAssetNew\<close> alone a successful fetch is as the interface describes it: status
  200, the bytes of the file as the body, \<^verbatim>\<open>Content-Type\<close> \<^verbatim>\<open>image/png\<close> and a
  \<^verbatim>\<open>Content-Length\<close> that is the decimal numeral of the byte length of the body.  Through
  \<^const>\<open>GET\<close> the status, the bytes and the content type arrive.
\<close>

lemma handleAssetNew_fetch_bytes_and_headers:
  assumes "req_method req = ''GET''"
    and "path_join [Some (getPackagePath env), getQueryParams req ''path''] = Inr assetPath"
    and "fs_readFile env assetPath = Inr data"
  shows "snd (handleAssetNew env req)
           = \<lparr>status = 200,
              headers = [(''Content-Type'', ''image/png''),
                         (''Content-Length'', nat_toString (length data))],
              body = data\<rparr>
       \<and> decimal_value (nat_toString (length data)) = length (body (snd (handleAssetNew env req)))
       \<and> (getQueryParams req ''type'' = Some ''asset'' \<longrightarrow>
            status (snd (GET env req)) = 200
            \<and> map_of (headers (snd (GET env req))) ''Content-Type'' = Some ''image/png''
            \<and> body (snd (GET env req)) = data)"
  using assms
  by (simp add: handleAssetNew_read_ok decimal_value_nat_toString GET_asset)

text \<open>
  For every successful asset fetch the response of \<^const>\<open>GET\<close> has the single header
  \<^verbatim>\<open>Content-Type\<close>: the \<^verbatim>\<open>Content-Length\<close> of the inner response is not passed on.
\<close>

lemma GET_asset_has_no_content_length:
  assumes "getQueryParams req ''type'' = Some ''asset''"
  shows "map_of (headers (snd (GET env req))) ''Content-Length'' = None"
  using assms by (simp add: GET_asset)

text \<open>
  C8, at the failing input.  The fetch of \<^verbatim>\<open>assets/logo.png\<close> succeeds: the response of
  \<^const>\<open>handleAssetNew\<close> carries the twelve bytes of the file, \<^verbatim>\<open>Content-Type\<close> \<^verbatim>\<open>image/png\<close> and
  \<^verbatim>\<open>Content-Length\<close> \<^verbatim>\<open>12\<close>, while the response \<^const>\<open>GET\<close> returns for the same request
  carries the bytes and \<^verbatim>\<open>Content-Type\<close> only, and no \<^verbatim>\<open>Content-Length\<close> header.
\<close>

theorem C8_get_drops_content_length:
  "fs_readFile ex_env ''/app/node_modules/destack/assets/logo.png'' = Inr ''PNGDATA12345''
   \<and> handleAssetNew ex_env (ex_request ''GET'' [(''type'', ''asset''), (''path'', ''assets/logo.png'')])
       = ([Call_readFile ''/app/node_modules/destack/assets/logo.png''],
          \<lparr>status = 200,
           headers = [(''Content-Type'', ''image/png''), (''Content-Length'', ''12'')],
           body = ''PNGDATA12345''\<rparr>)
   \<and> GET ex_env (ex_request ''GET'' [(''type'', ''asset''), (''path'', ''assets/logo.png'')])
       = ([Call_readFile ''/app/node_modules/destack/assets/logo.png''],
          \<lparr>status = 200, headers = [(''Content-Type'', ''image/png'')], body = ''PNGDATA12345''\<rparr>)
   \<and> map_of (headers (snd (GET ex_env
         (ex_request ''GET'' [(''type'', ''asset''), (''path'', ''assets/logo.png'')])))) ''Content-Length''
       = None"
proof -
  have r: "fs_readFile ex_env ''/app/node_modules/destack/assets/logo.png'' = Inr ''PNGDATA12345''"
    by (simp add: ex_env_def)
  have "handleAssetNew ex_env (ex_request ''GET'' [(''type'', ''asset''), (''path'', ''assets/logo.png'')])
       = ([Call_readFile ''/app/node_modules/destack/assets/logo.png''],
          \<lparr>status = 200,
           headers = [(''Content-Type'', ''image/png''),
                      (''Content-Length'', nat_toString (length ''PNGDATA12345''))],
           body = ''PNGDATA12345''\<rparr>)"
    by (rule handleAssetNew_read_ok) (simp_all add: ex_request_fields ex_join_logo r)
  then have h: "handleAssetNew ex_env
         (ex_request ''GET'' [(''type'', ''asset''), (''path'', ''assets/logo.png'')])
       = ([Call_readFile ''/app/node_modules/destack/assets/logo.png''],
          \<lparr>status = 200,
           headers = [(''Content-Type'', ''image/png''), (''Content-Length'', ''12'')],
           body = ''PNGDATA12345''\<rparr>)"
    unfolding length_logo .
  have g: "GET ex_env (ex_request ''GET'' [(''type'', ''asset''), (''path'', ''assets/logo.png'')])
       = ([Call_readFile ''/app/node_modules/destack/assets/logo.png''],
          \<lparr>status = 200, headers = [(''Content-Type'', ''image/png'')], body = ''PNGDATA12345''\<rparr>)"
    by (subst GET_asset) (simp_all add: ex_request_fields h)
  show ?thesis
    using r h g by simp
qed

text \<open>
  C10.  For a request with query type \<^verbatim>\<open>asset\<close>, the response of \<^const>\<open>GET\<close> has status 200
  and the single header \<^verbatim>\<open>Content-Type: image/png\<close>, whatever the inner handler did; when the
  file read failed, the inner response is the generic 500 and the body \<^const>\<open>GET\<close> returns is
  the serialisation of that JSON error object.
\<close>

theorem C10_asset_get_status_200:
  assumes "getQueryParams req ''type'' = Some ''asset''"
  shows "status (snd (GET env req)) = 200
       \<and> headers (snd (GET env req)) = [(''Content-Type'', ''image/png'')]
       \<and> (\<forall>assetPath e.
             req_method req = ''GET''
             \<and> path_join [Some (getPackagePath env), getQueryParams req ''path''] = Inr assetPath
             \<and> fs_readFile env assetPath = Inl e \<longrightarrow>
             snd (handleAssetNew env req) = NextResponse_json internal_server_error 500
             \<and> body (snd (GET env req)) = JSON_stringify internal_server_error)"
  using assms
  by (simp add: GET_asset handleAssetNew_read_failed body_NextResponse_json)

theorem C10_asset_get_status_200_witness:
  "status (snd (GET ex_env (ex_request ''GET'' [(''type'', ''asset''), (''path'', ''missing.png'')]))) = 200
   \<and> headers (snd (GET ex_env (ex_request ''GET'' [(''type'', ''asset''), (''path'', ''missing.png'')])))
       = [(''Content-Type'', ''image/png'')]
   \<and> body (snd (GET ex_env (ex_request ''GET'' [(''type'', ''asset''), (''path'', ''missing.png'')])))
       = JSON_stringify (JObj [(''error'', JStr ''Internal Server Error'')])"
proof -
  have p: "path_join [Some (getPackagePath ex_env),
              getQueryParams (ex_request ''GET'' [(''type'', ''asset''), (''path'', ''missing.png'')]) ''path'']
            = Inr ''/app/node_modules/destack/missing.png''"
    by (simp add: ex_env_def ex_request_def path_join_def join_validated_def normalize_def
        normalizeString_def getQueryParams_def)
  have m: "req_method (ex_request ''GET'' [(''type'', ''asset''), (''path'', ''missing.png'')]) = ''GET''"
    by (simp add: ex_request_def)
  have r: "fs_readFile ex_env ''/app/node_modules/destack/missing.png''
             = Inl (ENOENT ''/app/node_modules/destack/missing.png'')"
    by (simp add: ex_env_def)
  have t: "getQueryParams (ex_request ''GET'' [(''type'', ''asset''), (''path'', ''missing.png'')]) ''type''
            = Some ''asset''"
    by (simp add: ex_request_def getQueryParams_def)
  show ?thesis
    using C10_asset_get_status_200 [OF t, of ex_env] m p r
    by (simp add: internal_server_error_def)
qed

text \<open>
  C4, at the failing input.  The read of \<^verbatim>\<open>missing.png\<close> fails with \<^verbatim>\<open>ENOENT\<close>; the inner
  handler answers 500 with the generic error object, and \<^const>\<open>GET\<close> turns that into a
  response with status 200 and content type \<^verbatim>\<open>image/png\<close>.
\<close>

theorem C4_failed_asset_read_answers_200:
  "snd (handleAssetNew ex_env (ex_request ''GET'' [(''type'', ''asset''), (''path'', ''missing.png'')]))
     = NextResponse_json (JObj [(''error'', JStr ''Internal Server Error'')]) 500
   \<and> GET ex_env (ex_request ''GET'' [(''type'', ''asset''), (''path'', ''missing.png'')])
     = ([Call_readFile ''/app/node_modules/destack/missing.png'',
         Console_error ''Error handling asset in handleAssetNew:''
           (ENOENT ''/app/node_modules/destack/missing.png'')],
        \<lparr>status = 200, headers = [(''Content-Type'', ''image/png'')],
         body = JSON_stringify (JObj [(''error'', JStr ''Internal Server Error'')])\<rparr>)"
proof -
  have r: "fs_readFile ex_env ''/app/node_modules/destack/missing.png''
             = Inl (ENOENT ''/app/node_modules/destack/missing.png'')"
    by (simp add: ex_env_def)
  have h: "handleAssetNew ex_env (ex_request ''GET'' [(''type'', ''asset''), (''path'', ''missing.png'')])
       = ([Call_readFile ''/app/node_modules/destack/missing.png'',
           Console_error ''Error handling asset in handleAssetNew:''
             (ENOENT ''/app/node_modules/destack/missing.png'')],
          NextResponse_json internal_server_error 500)"
    by (rule handleAssetNew_read_failed) (simp_all add: ex_request_fields ex_join_missing r)
  have g: "GET ex_env (ex_request ''GET'' [(''type'', ''asset''), (''path'', ''missing.png'')])
     = (fst (handleAssetNew ex_env (ex_request ''GET'' [(''type'', ''asset''), (''path'', ''missing.png'')])),
        \<lparr>status = 200, headers = [(''Content-Type'', ''image/png'')],
         body = body (snd (handleAssetNew ex_env
                  (ex_request ''GET'' [(''type'', ''asset''), (''path'', ''missing.png'')])))\<rparr>)"
    by (rule GET_asset) (simp add: ex_request_fields)
  show ?thesis
    unfolding g h by (simp add: internal_server_error_def body_NextResponse_json)
qed

section \<open>Theme requests\<close>

text \<open>
  C2.  For a theme directory whose listing holds exactly \<^verbatim>\<open>banner1\<close>, \<^verbatim>\<open>footer1\<close>,
  \<^verbatim>\<open>index.ts\<close> and \<^verbatim>\<open>.hidden\<close> (in any order) and whose two \<^verbatim>\<open>index.html\<close> files can be read,
  \<^const>\<open>handleThemeNew\<close> returns exactly two entries, in one order or the other: the one for
  \<^verbatim>\<open>banner1\<close> and the one for \<^verbatim>\<open>footer1\<close>, each pairing the folder name with the source
  read from that folder; \<^verbatim>\<open>index.ts\<close> and \<^verbatim>\<open>.hidden\<close> are left out.
\<close>

theorem C2_theme_scenario_two_entries:
  assumes "req_method req = ''GET''"
    and "path_join [Some (getPackagePath env), Some ''themes'', getQueryParams req ''name'']
           = Inr folderPath"
    and "fs_readdir env folderPath = Inr f"
    and "distinct f"
    and "set f = {''banner1'', ''footer1'', ''index.ts'', ''.hidden''}"
    and "fs_readFile env (join_validated [folderPath, ''banner1'', ''index.html'']) = Inr s1"
    and "fs_readFile env (join_validated [folderPath, ''footer1'', ''index.html'']) = Inr s2"
  shows "snd (handleThemeNew env req)
           = NextResponse_json
               (JArr [JObj [(''source'', JStr s1), (''folder'', JStr ''banner1'')],
                      JObj [(''source'', JStr s2), (''folder'', JStr ''footer1'')]]) 200
       \<or> snd (handleThemeNew env req)
           = NextResponse_json
               (JArr [JObj [(''source'', JStr s2), (''folder'', JStr ''footer1'')],
                      JObj [(''source'', JStr s1), (''folder'', JStr ''banner1'')]]) 200"
proof -
  define src where "src = (\<lambda>c. if c = ''banner1'' then s1 else s2)"
  have reads: "fs_readFile env (join_validated [folderPath, c, ''index.html'']) = Inr (src c)"
    if "c \<in> set f" and "isComponent c" for c
  proof -
    from that assms(5) isComponent_scenario have "c = ''banner1'' \<or> c = ''footer1''"
      by auto
    then show ?thesis
      using assms(6,7) by (auto simp add: src_def)
  qed
  have resp: "snd (handleThemeNew env req)
      = NextResponse_json
          (JArr (map (\<lambda>c. JObj [(''source'', JStr (src c)), (''folder'', JStr c)])
                   (filter isComponent f))) 200"
    using handleThemeNew_listing [OF assms(1,2,3) reads] by simp
  from filter_scenario [OF assms(4,5)] show ?thesis
  proof
    assume "filter isComponent f = [''banner1'', ''footer1'']"
    then show ?thesis
      using resp by (simp add: src_def)
  next
    assume "filter isComponent f = [''footer1'', ''banner1'']"
    then show ?thesis
      using resp by (simp add: src_def)
  qed
qed

theorem C2_theme_scenario_two_entries_witness:
  "fs_readdir ex_env ''/app/node_modules/destack/themes/default''
     = Inr [''banner1'', ''footer1'', ''index.ts'', ''.hidden'']
   \<and> snd (handleThemeNew ex_env (ex_request ''GET'' [(''type'', ''theme''), (''name'', ''default'')]))
     = NextResponse_json
         (JArr [JObj [(''source'', JStr ''<section>banner</section>''), (''folder'', JStr ''banner1'')],
                JObj [(''source'', JStr ''<footer>footer</footer>''), (''folder'', JStr ''footer1'')]]) 200"
proof -
  have m: "req_method (ex_request ''GET'' [(''type'', ''theme''), (''name'', ''default'')]) = ''GET''"
    by (simp add: ex_request_fields)
  have p: "path_join [Some (getPackagePath ex_env), Some ''themes'',
             getQueryParams (ex_request ''GET'' [(''type'', ''theme''), (''name'', ''default'')]) ''name'']
           = Inr ''/app/node_modules/destack/themes/default''"
    by (simp add: ex_request_fields ex_join_theme ex_join_theme_default)
  have r: "fs_readdir ex_env ''/app/node_modules/destack/themes/default''
           = Inr [''banner1'', ''footer1'', ''index.ts'', ''.hidden'']"
    by (simp add: ex_env_def)
  have d: "distinct [''banner1'', ''footer1'', ''index.ts'', ''.hidden'']"
    by simp
  have s: "set [''banner1'', ''footer1'', ''index.ts'', ''.hidden'']
           = {''banner1'', ''footer1'', ''index.ts'', ''.hidden''}"
    by simp
  have b: "fs_readFile ex_env
             (join_validated [''/app/node_modules/destack/themes/default'', ''banner1'', ''index.html''])
           = Inr ''<section>banner</section>''"
    by (simp add: ex_join_component ex_env_def)
  have f: "fs_readFile ex_env
             (join_validated [''/app/node_modules/destack/themes/default'', ''footer1'', ''index.html''])
           = Inr ''<footer>footer</footer>''"
    by (simp add: ex_join_component ex_env_def)
  have order: "handleThemeNew ex_env (ex_request ''GET'' [(''type'', ''theme''), (''name'', ''default'')])
     = (Call_readdir ''/app/node_modules/destack/themes/default''
        # map (\<lambda>c. Call_readFile
                 (join_validated [''/app/node_modules/destack/themes/default'', c, ''index.html'']))
            (filter isComponent [''banner1'', ''footer1'', ''index.ts'', ''.hidden'']),
      NextResponse_json
        (JArr (map (\<lambda>c. JObj [(''source'', JStr (if c = ''banner1'' then ''<section>banner</section>''
                                                  else ''<footer>footer</footer>'')),
                                (''folder'', JStr c)])
                 (filter isComponent [''banner1'', ''footer1'', ''index.ts'', ''.hidden'']))) 200)"
    by (rule handleThemeNew_listing [OF m p r]) (auto simp add: b f isComponent_scenario)
  have "snd (handleThemeNew ex_env (ex_request ''GET'' [(''type'', ''theme''), (''name'', ''default'')]))
     \<noteq> NextResponse_json
         (JArr [JObj [(''source'', JStr ''<footer>footer</footer>''), (''folder'', JStr ''footer1'')],
                JObj [(''source'', JStr ''<section>banner</section>''), (''folder'', JStr ''banner1'')]]) 200"
    unfolding order by (simp add: isComponent_scenario NextResponse_json_def quoteJSON_def quote_char_def)
  then show ?thesis
    using C2_theme_scenario_two_entries [OF m p r d s b f] r by simp
qed

text \<open>
  C3.  When the theme directory does not exist (\<^verbatim>\<open>readdir\<close> rejects with \<^verbatim>\<open>ENOENT\<close> for
  it), loading the theme fails: the try block of \<^const>\<open>handleThemeNew\<close> ends with that
  not-found error before any component is read, the error is logged, and the response is
  the generic 500.
\<close>

theorem C3_missing_theme_directory_fails:
  assumes "req_method req = ''GET''"
    and "path_join [Some (getPackagePath env), Some ''themes'', getQueryParams req ''name'']
           = Inr folderPath"
    and "fs_readdir env folderPath = Inl (ENOENT folderPath)"
  shows "handleThemeNew_try env req = ([Call_readdir folderPath], Inl (ENOENT folderPath))
       \<and> handleThemeNew env req =
           ([Call_readdir folderPath,
             Console_error ''Error handling theme in handleThemeNew:'' (ENOENT folderPath)],
            NextResponse_json internal_server_error 500)"
  by (simp add: handleThemeNew_def handleThemeNew_try_GET [OF assms(1,2)] assms(3) catch_500_Inl)

theorem C3_missing_theme_directory_fails_witness:
  "handleThemeNew_try ex_env (ex_request ''GET'' [(''type'', ''theme''), (''name'', ''nope'')])
     = ([Call_readdir ''/app/node_modules/destack/themes/nope''],
        Inl (ENOENT ''/app/node_modules/destack/themes/nope''))
   \<and> status (snd (handleThemeNew ex_env
        (ex_request ''GET'' [(''type'', ''theme''), (''name'', ''nope'')]))) = 500"
proof -
  have m: "req_method (ex_request ''GET'' [(''type'', ''theme''), (''name'', ''nope'')]) = ''GET''"
    by (simp add: ex_request_fields)
  have p: "path_join [Some (getPackagePath ex_env), Some ''themes'',
             getQueryParams (ex_request ''GET'' [(''type'', ''theme''), (''name'', ''nope'')]) ''name'']
           = Inr ''/app/node_modules/destack/themes/nope''"
    by (simp add: ex_request_fields ex_join_theme ex_join_theme_nope)
  have r: "fs_readdir ex_env ''/app/node_modules/destack/themes/nope''
           = Inl (ENOENT ''/app/node_modules/destack/themes/nope'')"
    by (simp add: ex_env_def)
  show ?thesis
    using C3_missing_theme_directory_fails [OF m p r] by (simp add: status_NextResponse_json)
qed

section \<open>Data requests\<close>

text \<open>
  For a POST request, \<^const>\<open>handleDataNew\<close> makes exactly one call.  If the
  \<^verbatim>\<open>content-type\<close> header starts with \<^verbatim>\<open>multipart/form-data\<close> the call is
  \<^verbatim>\<open>uploadFiles(req)\<close> and, when it succeeds, the response of the handler is the JSON of the
  URLs it returned.  Otherwise, an absent header included, the call is
  \<^verbatim>\<open>updateData(path, ext || 'html', body)\<close> and, when it succeeds, the response of the handler
  is the empty JSON object.
\<close>

lemma handleDataNew_post_upload_or_update:
  assumes "req_method req = ''POST''"
  shows "(\<forall>ct. headers_get req ''content-type'' = Some ct \<and> startsWith ct ''multipart/form-data'' \<longrightarrow>
            calls (fst (handleDataNew env req)) = [Call_uploadFiles req]
          \<and> (\<forall>urls. uploadFiles env req = Inr urls \<longrightarrow>
                handleDataNew env req = ([Call_uploadFiles req], NextResponse_json urls 200)))
       \<and> (headers_get req ''content-type'' = None
            \<or> (\<exists>ct. headers_get req ''content-type'' = Some ct
                     \<and> \<not> startsWith ct ''multipart/form-data'') \<longrightarrow>
            calls (fst (handleDataNew env req))
              = [Call_updateData (getQueryParams req ''path'')
                   (or_default (getQueryParams req ''ext'') ''html'') (req_body req)]
          \<and> (updateData env (getQueryParams req ''path'')
                 (or_default (getQueryParams req ''ext'') ''html'') (req_body req) = Inr () \<longrightarrow>
                handleDataNew env req
                  = ([Call_updateData (getQueryParams req ''path'')
                        (or_default (getQueryParams req ''ext'') ''html'') (req_body req)],
                     NextResponse_json (JObj []) 200)))"
proof (intro conjI allI impI)
  fix ct
  assume ct: "headers_get req ''content-type'' = Some ct \<and> startsWith ct ''multipart/form-data''"
  then have t: "handleDataNew_try env req =
     ([Call_uploadFiles req],
      (case uploadFiles env req of Inl e \<Rightarrow> Inl e | Inr urls \<Rightarrow> Inr (NextResponse_json urls 200)))"
    using assms handleDataNew_try_upload by blast
  show "calls (fst (handleDataNew env req)) = [Call_uploadFiles req]"
    by (simp add: handleDataNew_def calls_catch_500 t calls_Cons calls_Nil)
  fix urls
  assume "uploadFiles env req = Inr urls"
  then show "handleDataNew env req = ([Call_uploadFiles req], NextResponse_json urls 200)"
    by (simp add: handleDataNew_def t catch_500_Inr)
next
  assume h: "headers_get req ''content-type'' = None
            \<or> (\<exists>ct. headers_get req ''content-type'' = Some ct
                     \<and> \<not> startsWith ct ''multipart/form-data'')"
  note t = handleDataNew_try_update [OF assms h, of env]
  show "calls (fst (handleDataNew env req))
              = [Call_updateData (getQueryParams req ''path'')
                   (or_default (getQueryParams req ''ext'') ''html'') (req_body req)]"
    by (simp add: handleDataNew_def calls_catch_500 t calls_Cons calls_Nil)
  assume "updateData env (getQueryParams req ''path'')
                 (or_default (getQueryParams req ''ext'') ''html'') (req_body req) = Inr ()"
  then show "handleDataNew env req
                  = ([Call_updateData (getQueryParams req ''path'')
                        (or_default (getQueryParams req ''ext'') ''html'') (req_body req)],
                     NextResponse_json (JObj []) 200)"
    by (simp add: handleDataNew_def t catch_500_Inr)
qed

text \<open>
  The exported \<^const>\<open>POST\<close> does not return the response of \<^const>\<open>handleDataNew\<close>: it hands the
  response object to \<^verbatim>\<open>NextResponse.json\<close>, so every request of type \<^verbatim>\<open>data\<close> is answered
  with status 200 and the empty JSON object, after the events of the handler.
\<close>

lemma POST_data_response:
  assumes "getQueryParams req ''type'' = Some ''data''"
  shows "POST env req = (fst (handleDataNew env req), NextResponse_json (JObj []) 200)"
  using assms
  by (simp add: POST_def Let_def handleEditorNew_def POST_try_def route_catch_def
      Response_toJSON_def)

text \<open>
  C7, at the failing input.  A multipart POST of type \<^verbatim>\<open>data\<close>: \<^const>\<open>handleDataNew\<close> calls
  \<^verbatim>\<open>uploadFiles\<close> and its response is the JSON array of the URL that call returned, but the
  response of \<^const>\<open>POST\<close> for the same request is the empty JSON object, not the URLs.
\<close>

theorem C7_post_upload_answers_empty_object:
  "headers_get ex_upload_request ''content-type'' = Some ''multipart/form-data; boundary=x''
   \<and> uploadFiles ex_env ex_upload_request = Inr (JArr [JStr ''/uploaded/a.png''])
   \<and> handleDataNew ex_env ex_upload_request
       = ([Call_uploadFiles ex_upload_request],
          NextResponse_json (JArr [JStr ''/uploaded/a.png'']) 200)
   \<and> POST ex_env ex_upload_request
       = ([Call_uploadFiles ex_upload_request], NextResponse_json (JObj []) 200)
   \<and> body (snd (POST ex_env ex_upload_request)) = ''{}''"
proof -
  have ct: "headers_get ex_upload_request ''content-type'' = Some ''multipart/form-data; boundary=x''"
    by (simp add: headers_get_def ex_upload_request_def)
  have m: "req_method ex_upload_request = ''POST''"
    by (simp add: ex_upload_request_def)
  have sw: "startsWith ''multipart/form-data; boundary=x'' ''multipart/form-data''"
    by (simp add: startsWith_def)
  have u: "uploadFiles ex_env ex_upload_request = Inr (JArr [JStr ''/uploaded/a.png''])"
    by (simp add: ex_env_def)
  have h: "handleDataNew ex_env ex_upload_request
       = ([Call_uploadFiles ex_upload_request],
          NextResponse_json (JArr [JStr ''/uploaded/a.png'']) 200)"
    by (simp add: handleDataNew_def handleDataNew_try_upload [OF m ct sw] u catch_500_Inr)
  have t: "getQueryParams ex_upload_request ''type'' = Some ''data''"
    by (simp add: getQueryParams_def ex_upload_request_def)
  have p: "POST ex_env ex_upload_request
       = ([Call_uploadFiles ex_upload_request], NextResponse_json (JObj []) 200)"
    by (simp add: POST_data_response [OF t] h)
  show ?thesis
    using ct u h p by (simp add: NextResponse_json_def)
qed

text \<open>
  C9.  When the \<^verbatim>\<open>ext\<close> query parameter is absent or empty, a GET calls
  \<^verbatim>\<open>loadData(path, 'html')\<close> and a POST that is not multipart calls
  \<^verbatim>\<open>updateData(path, 'html', body)\<close>.
\<close>

theorem C9_ext_defaults_to_html:
  assumes "getQueryParams req ''ext'' = None \<or> getQueryParams req ''ext'' = Some []"
  shows "(req_method req = ''GET'' \<longrightarrow>
            calls (fst (handleDataNew env req))
              = [Call_loadData (getQueryParams req ''path'') ''html''])
       \<and> (req_method req = ''POST''
            \<and> (headers_get req ''content-type'' = None
                \<or> (\<exists>ct. headers_get req ''content-type'' = Some ct
                         \<and> \<not> startsWith ct ''multipart/form-data'')) \<longrightarrow>
            calls (fst (handleDataNew env req))
              = [Call_updateData (getQueryParams req ''path'') ''html'' (req_body req)])"
proof -
  have d: "or_default (getQueryParams req ''ext'') ''html'' = ''html''"
    using assms by (auto simp add: or_default_def)
  show ?thesis
  proof (intro conjI impI)
    assume "req_method req = ''GET''"
    then show "calls (fst (handleDataNew env req))
              = [Call_loadData (getQueryParams req ''path'') ''html'']"
      by (simp add: handleDataNew_def calls_catch_500 handleDataNew_try_load d calls_Cons calls_Nil)
  next
    assume h: "req_method req = ''POST''
            \<and> (headers_get req ''content-type'' = None
                \<or> (\<exists>ct. headers_get req ''content-type'' = Some ct
                         \<and> \<not> startsWith ct ''multipart/form-data''))"
    then have "handleDataNew_try env req =
     ([Call_updateData (getQueryParams req ''path'') (or_default (getQueryParams req ''ext'') ''html'') (req_body req)],
      (case updateData env (getQueryParams req ''path'') (or_default (getQueryParams req ''ext'') ''html'') (req_body req)
       of Inl e \<Rightarrow> Inl e | Inr u \<Rightarrow> Inr (NextResponse_json (JObj []) 200)))"
      using handleDataNew_try_update by blast
    then show "calls (fst (handleDataNew env req))
              = [Call_updateData (getQueryParams req ''path'') ''html'' (req_body req)]"
      by (simp add: handleDataNew_def calls_catch_500 d calls_Cons calls_Nil)
  qed
qed

theorem C9_ext_defaults_to_html_witness:
  "getQueryParams (ex_request ''GET'' [(''type'', ''data''), (''path'', ''home'')]) ''ext'' = None
   \<and> calls (fst (handleDataNew ex_env (ex_request ''GET'' [(''type'', ''data''), (''path'', ''home'')])))
       = [Call_loadData (Some ''home'') ''html'']
   \<and> getQueryParams (ex_request ''POST'' [(''path'', ''home''), (''ext'', [])]) ''ext'' = Some []
   \<and> calls (fst (handleDataNew ex_env (ex_request ''POST'' [(''path'', ''home''), (''ext'', [])])))
       = [Call_updateData (Some ''home'') ''html'' None]"
  using C9_ext_defaults_to_html [of "ex_request ''GET'' [(''type'', ''data''), (''path'', ''home'')]" ex_env]
        C9_ext_defaults_to_html [of "ex_request ''POST'' [(''path'', ''home''), (''ext'', [])]" ex_env]
  by (simp add: ex_request_def getQueryParams_def headers_get_def)

section \<open>Unsupported methods and operation types\<close>

text \<open>
  C6.  A request whose method is neither GET nor POST gets status 405 from
  \<^const>\<open>handleDataNew\<close>, and a request whose method is not GET gets status 405 from
  \<^const>\<open>handleAssetNew\<close> and from \<^const>\<open>handleThemeNew\<close>; no collaborator is called.
\<close>

theorem C6_unsupported_method_405:
  "(req_method req \<noteq> ''GET'' \<and> req_method req \<noteq> ''POST'' \<longrightarrow>
      fst (handleDataNew env req) = [] \<and> status (snd (handleDataNew env req)) = 405)
   \<and> (req_method req \<noteq> ''GET'' \<longrightarrow>
      fst (handleAssetNew env req) = [] \<and> status (snd (handleAssetNew env req)) = 405
      \<and> fst (handleThemeNew env req) = [] \<and> status (snd (handleThemeNew env req)) = 405)"
  by (simp add: handleDataNew_def handleDataNew_try_def handleAssetNew_def handleAssetNew_try_def
      handleThemeNew_def handleThemeNew_try_def catch_500_Inr status_NextResponse_json)

theorem C6_unsupported_method_405_witness:
  "req_method (ex_request ''PUT'' [(''type'', ''data'')]) \<noteq> ''GET''
   \<and> req_method (ex_request ''PUT'' [(''type'', ''data'')]) \<noteq> ''POST''
   \<and> status (snd (handleDataNew ex_env (ex_request ''PUT'' [(''type'', ''data'')]))) = 405
   \<and> status (snd (handleAssetNew ex_env (ex_request ''PUT'' [(''type'', ''data'')]))) = 405
   \<and> status (snd (handleThemeNew ex_env (ex_request ''PUT'' [(''type'', ''data'')]))) = 405"
  using C6_unsupported_method_405 [of "ex_request ''PUT'' [(''type'', ''data'')]" ex_env]
  by (simp add: ex_request_def)

text \<open>
  C5.  When the \<^verbatim>\<open>type\<close> query parameter is none of \<^verbatim>\<open>data\<close>, \<^verbatim>\<open>asset\<close> and \<^verbatim>\<open>theme\<close> (an
  absent parameter reads as \<^const>\<open>None\<close> and is included), \<^const>\<open>handleEditorNew\<close> calls no
  collaborator and answers with status 400 and the JSON object whose \<^verbatim>\<open>error\<close> field is
  \<^verbatim>\<open>Invalid Type\<close>.
\<close>

theorem C5_invalid_type_400:
  assumes "query ''type'' \<noteq> Some ''data''"
    and "query ''type'' \<noteq> Some ''asset''"
    and "query ''type'' \<noteq> Some ''theme''"
  shows "fst (handleEditorNew env req query) = []
       \<and> status (snd (handleEditorNew env req query)) = 400
       \<and> body (snd (handleEditorNew env req query))
           = JSON_stringify (JObj [(''error'', JStr ''Invalid Type'')])"
  using assms by (simp add: handleEditorNew_def NextResponse_json_def)

theorem C5_invalid_type_400_witness:
  "getQueryParams (ex_request ''GET'' [(''path'', ''home'')]) ''type'' = None
   \<and> status (snd (handleEditorNew ex_env (ex_request ''GET'' [(''path'', ''home'')])
         (getQueryParams (ex_request ''GET'' [(''path'', ''home'')])))) = 400
   \<and> body (snd (handleEditorNew ex_env (ex_request ''GET'' [(''type'', ''css'')])
         (getQueryParams (ex_request ''GET'' [(''type'', ''css'')]))))
       = JSON_stringify (JObj [(''error'', JStr ''Invalid Type'')])"
  using C5_invalid_type_400 [of "getQueryParams (ex_request ''GET'' [(''path'', ''home'')])" ex_env
          "ex_request ''GET'' [(''path'', ''home'')]"]
        C5_invalid_type_400 [of "getQueryParams (ex_request ''GET'' [(''type'', ''css'')])" ex_env
          "ex_request ''GET'' [(''type'', ''css'')]"]
  by (simp add: getQueryParams_def ex_request_def)

end
